theory Spec2Isabelle
  imports Complex_Main "HOL-Library.AList"
begin

section \<open>Data model\<close>

text \<open>
  The backend keeps its durable data in a relational store reached through Prisma
  (tables \<open>ride\<close>, \<open>driver\<close>, \<open>user\<close>, \<open>earning\<close>, \<open>promoCode\<close>, \<open>promoUsage\<close>) and its
  ephemeral data in Redis.  Every handler is an \<open>async\<close> function; a handler is modelled
  as a function from the state before it to the state after it.  A handler that reads
  the store, awaits, and then writes is given in two parts, the part up to the read and the
  part from the write on, because other handlers run between the two; the handler as a
  whole is the two parts with nothing in between.  \<open>Date.now()\<close> and \<open>new Date()\<close>
  are a natural number of milliseconds passed to the handler.
\<close>

type_synonym ident = string
type_synonym ride_id = nat
type_synonym time = nat

text \<open>A JavaScript number that results from arithmetic: a real or \<open>NaN\<close>.  The doubles
  of the runtime round every result; the rounding is not computed here but is a parameter
  \<open>fl\<close> of each operation (\<open>fl x\<close> is the double that the exact result \<open>x\<close> is rounded
  to).  Results beyond the range of doubles (the infinities) are not modelled.\<close>

datatype jsnum = NaN | Num real

datatype ride_status =
  REQUESTED | ACCEPTED | ARRIVING | ARRIVED | IN_PROGRESS | COMPLETED | CANCELLED | NO_DRIVERS

datatype service_type = VELOX | VELOX_XL | VELOX_BLACK | VELOX_GREEN

text \<open>The values of \<open>type\<close> that the token issuers of the repository write into a token:
  \<open>'user'\<close> and \<open>'driver'\<close> (routes/auth.js) and \<open>'admin'\<close> (the admin login).\<close>

datatype account_type = UserAccount | DriverAccount | AdminAccount

datatype cancelled_by = RIDER | DRIVER

datatype payment_status = PAYMENT_PENDING | CAPTURED | FAILED

datatype driver_status = PENDING_APPROVAL | APPROVED | SUSPENDED | REJECTED

datatype user_status = ACTIVE | INACTIVE

text \<open>A row of the \<open>ride\<close> table.  The row's id is its position in the table (the store
  generates ids; a new row gets an id no other row has).  The ordered stops, the payment
  method and the schedule date are not read by any operation modelled here and are left out.\<close>

record ride =
  userId :: ident
  driverId :: "ident option"
  status :: ride_status
  pickupAddress :: string
  pickupLat :: real
  pickupLng :: real
  dropoffAddress :: string
  dropoffLat :: real
  dropoffLng :: real
  distanceMiles :: jsnum
  durationMinutes :: jsnum
  serviceType :: service_type
  baseFare :: jsnum
  distanceFare :: jsnum
  timeFare :: jsnum
  surgeMult :: jsnum
  promoDiscount :: jsnum
  totalFare :: jsnum
  platformFee :: jsnum
  driverEarnings :: jsnum
  tip :: real
  isScheduled :: bool
  acceptedAt :: "time option"
  arrivedAt :: "time option"
  startedAt :: "time option"
  completedAt :: "time option"
  cancelledAt :: "time option"
  cancelReason :: "string option"
  cancelledBy :: "cancelled_by option"
  paymentStatus :: payment_status

record driver =
  driverStatus :: driver_status
  isOnline :: bool
  serviceTypes :: "service_type list"
  currentLat :: "real option"
  currentLng :: "real option"
  lastLocationUpdate :: "time option"
  totalRides :: int
  totalEarnings :: jsnum

datatype earning_status = PENDING | PAID_OUT

record earning =
  earningDriverId :: ident
  earningRideId :: ride_id
  grossAmount :: jsnum
  earningPlatformFee :: jsnum
  netAmount :: jsnum
  earningTip :: real
  earningStatus :: earning_status

datatype promo_type = FIXED | PERCENTAGE

record promo =
  promoId :: nat
  isActive :: bool
  validUntil :: "time option"
  usageLimit :: "int option"
  usageCount :: int
  perUserLimit :: "int option"
  minRideFare :: "real option"
  promoType :: promo_type
  promoValue :: real
  maxDiscount :: "real option"

text \<open>Redis: the string keys \<open>driver:location:{id}\<close> and \<open>ride:state:{id}\<close>, each stored
  with the time at which it expires, and the geo set \<open>drivers:online\<close>, a list of members
  with their (longitude, latitude).\<close>

record driver_location =
  locLat :: real
  locLng :: real
  updatedAt :: time

record ride_state =
  stateUserId :: ident
  stateStatus :: ride_status
  stateTotalFare :: jsnum

record world =
  rides :: "ride list"
  drivers :: "ident \<rightharpoonup> driver"
  users :: "ident \<rightharpoonup> user_status"
  earnings :: "earning list"
  promoCodes :: "string \<rightharpoonup> promo"
  promoUsages :: "(nat \<times> ident) list"
  driverLocationKeys :: "ident \<rightharpoonup> (driver_location \<times> time)"
  driversOnline :: "(ident \<times> (real \<times> real)) list"
  rideStateKeys :: "ride_id \<rightharpoonup> (ride_state \<times> time)"

text \<open>The identity that the authentication layer attaches to a request or a socket.\<close>

record identity =
  accountId :: ident
  accountType :: account_type

text \<open>Messages sent through socket.io: the room they are sent to and the event.
  \<open>Caller\<close> is the socket of the handler itself (\<open>socket.emit\<close>).\<close>

datatype room = UserRoom ident | DriverRoom ident | RideRoom ride_id | Caller

datatype event =
    RideAcceptFailed string
  | RideAccepted ride_id ident
  | RideAcceptConfirmed ride_id jsnum
  | RideDriverArrived ride_id
  | RideTripStarted ride_id
  | RideCompleted ride_id jsnum
  | RideCompleteConfirmed ride_id jsnum
  | RideNoDrivers ride_id
  | RideRequest ride_id jsnum real
  | RideCancelled ride_id account_type "string option" real

text \<open>Errors thrown by the store and the runtime.\<close>

datatype error =
    P2025  \<comment> \<open>Prisma: record to update not found\<close>
  | P2002  \<comment> \<open>Prisma: unique constraint violated\<close>
  | TypeError  \<comment> \<open>property read on null\<close>
  | RedisError  \<comment> \<open>the Redis server refused a command\<close>

datatype outcome = Returned | Threw error

section \<open>Arithmetic of the runtime\<close>













definition atan2 :: "real \<Rightarrow> real \<Rightarrow> real" where
  "atan2 y x =
     (if 0 < x then arctan (y / x)
      else if x < 0 \<and> 0 \<le> y then arctan (y / x) + pi
      else if x < 0 then arctan (y / x) - pi
      else if 0 < y then pi / 2
      else if y < 0 then - (pi / 2)
      else 0)"


text \<open>An \<open>increment\<close> of a column is computed by the store, exactly.\<close>

definition store_increment :: "jsnum \<Rightarrow> jsnum \<Rightarrow> jsnum" where
  "store_increment a b = (case (a, b) of (Num x, Num y) \<Rightarrow> Num (x + y) | _ \<Rightarrow> NaN)"

section \<open>Store primitives\<close>

definition ride_findUnique :: "world \<Rightarrow> ride_id \<Rightarrow> ride option" where
  "ride_findUnique w rid = (if rid < length (rides w) then Some (rides w ! rid) else None)"

text \<open>\<open>prisma.ride.update({ where: { id }, data })\<close>: the only condition is that the row
  exists; it throws P2025 otherwise.  The updated row is returned.\<close>

definition ride_update :: "world \<Rightarrow> ride_id \<Rightarrow> (ride \<Rightarrow> ride) \<Rightarrow> error + (ride \<times> world)" where
  "ride_update w rid f =
     (if rid < length (rides w)
      then Inr (f (rides w ! rid), w\<lparr>rides := (rides w)[rid := f (rides w ! rid)]\<rparr>)
      else Inl P2025)"

text \<open>\<open>prisma.driver.update({ where: { id }, data })\<close>.\<close>

definition driver_update :: "world \<Rightarrow> ident \<Rightarrow> (driver \<Rightarrow> driver) \<Rightarrow> error + world" where
  "driver_update w did f =
     (case drivers w did of
        None \<Rightarrow> Inl P2025
      | Some d \<Rightarrow> Inr (w\<lparr>drivers := (drivers w)(did \<mapsto> f d)\<rparr>))"

text \<open>\<open>prisma.earning.create({ data })\<close>.  The schema of the \<open>earning\<close> table is not part
  of the sources at hand, so whether its \<open>rideId\<close> column carries a unique constraint is a
  parameter: with the constraint, inserting a second row for a ride throws P2002.\<close>

definition earning_create :: "bool \<Rightarrow> world \<Rightarrow> earning \<Rightarrow> error + world" where
  "earning_create rideIdUnique w e =
     (if rideIdUnique \<and> earningRideId e \<in> set (map earningRideId (earnings w))
      then Inl P2002
      else Inr (w\<lparr>earnings := earnings w @ [e]\<rparr>))"

text \<open>\<open>prisma.earning.updateMany({ where: { rideId }, data: { tip } })\<close>.\<close>

definition earning_updateMany_tip :: "world \<Rightarrow> ride_id \<Rightarrow> real \<Rightarrow> world" where
  "earning_updateMany_tip w rid amount =
     w\<lparr>earnings := map (\<lambda>e. if earningRideId e = rid then e\<lparr>earningTip := amount\<rparr> else e)
                         (earnings w)\<rparr>"

section \<open>Redis functions (config/redis.js)\<close>

text \<open>A key written with \<open>SETEX key ttl value\<close> at time \<open>now\<close> is readable while the
  clock is before \<open>now + ttl * 1000\<close>.\<close>

definition updateDriverLocation ::
  "(real \<Rightarrow> real \<Rightarrow> bool) \<Rightarrow> world \<Rightarrow> ident \<Rightarrow> real \<Rightarrow> real \<Rightarrow> time \<Rightarrow> outcome \<times> world" where
  \<comment> \<open>\<open>geoValid lng lat\<close>: whether the Redis server accepts the pair in GEOADD; the
      server is not part of the repository.  The location key is written first.\<close>
  "updateDriverLocation geoValid w did lat lng now =
     (let w1 = w\<lparr>driverLocationKeys := (driverLocationKeys w)
                  (did \<mapsto> (\<lparr>locLat = lat, locLng = lng, updatedAt = now\<rparr>, now + 300 * 1000))\<rparr>
      in if geoValid lng lat
         then (Returned, w1\<lparr>driversOnline := AList.update did (lng, lat) (driversOnline w1)\<rparr>)
         else (Threw RedisError, w1))"

definition getDriverLocation :: "world \<Rightarrow> ident \<Rightarrow> time \<Rightarrow> driver_location option" where
  "getDriverLocation w did now =
     (case driverLocationKeys w did of
        None \<Rightarrow> None
      | Some (v, expiresAt) \<Rightarrow> if now < expiresAt then Some v else None)"

text \<open>\<open>GEORADIUS drivers:online lng lat radius mi WITHDIST ASC COUNT limit\<close>: the
  members within the radius, nearest first, at most \<open>limit\<close> of them.  The distance
  \<open>geoDist\<close> between two (longitude, latitude) positions is computed by the Redis server.\<close>

definition georadius ::
  "((real \<times> real) \<Rightarrow> (real \<times> real) \<Rightarrow> real) \<Rightarrow> (ident \<times> (real \<times> real)) list \<Rightarrow>
   real \<Rightarrow> real \<Rightarrow> real \<Rightarrow> nat \<Rightarrow> (ident \<times> real) list" where
  "georadius geoDist members lng lat radius limit =
     take limit (sort_key snd
       (filter (\<lambda>(m, d). d \<le> radius)
          (map (\<lambda>(m, pos). (m, geoDist (lng, lat) pos)) members)))"

definition findNearbyDrivers ::
  "((real \<times> real) \<Rightarrow> (real \<times> real) \<Rightarrow> real) \<Rightarrow> world \<Rightarrow> real \<Rightarrow> real \<Rightarrow> real \<Rightarrow> nat \<Rightarrow>
   (ident \<times> real) list" where
  \<comment> \<open>the result pairs are (driverId, distanceMiles); the callers pass radius 10 and leave
      the limit at its default 20\<close>
  "findNearbyDrivers geoDist w lat lng radiusMiles limit =
     georadius geoDist (driversOnline w) lng lat radiusMiles limit"


definition setRideState :: "world \<Rightarrow> ride_id \<Rightarrow> ride_state \<Rightarrow> time \<Rightarrow> world" where
  "setRideState w rid st now =
     w\<lparr>rideStateKeys := (rideStateKeys w)(rid \<mapsto> (st, now + 3600 * 1000))\<rparr>"

definition getRideState :: "world \<Rightarrow> ride_id \<Rightarrow> time \<Rightarrow> ride_state option" where
  "getRideState w rid now =
     (case rideStateKeys w rid of
        None \<Rightarrow> None
      | Some (v, expiresAt) \<Rightarrow> if now < expiresAt then Some v else None)"

definition clearRideState :: "world \<Rightarrow> ride_id \<Rightarrow> world" where
  "clearRideState w rid = w\<lparr>rideStateKeys := (rideStateKeys w)(rid := None)\<rparr>"

section \<open>Socket handlers (services/socketService.js)\<close>

text \<open>\<open>driver:accept_ride\<close>.  The handler reads the ride and answers
  \<open>Ride no longer available\<close> unless it exists with status REQUESTED.  Then, after two
  awaits, it reads the driver's row, writes driver id, status ACCEPTED and the acceptance
  time with an update whose only condition is the ride id, and builds the two messages
  from the ride it read and the driver's row; every exception is caught and answered with
  \<open>Failed to accept ride\<close>.

  \<open>accept_ride_begin\<close> is the handler up to the status check: the messages that end it, or
  the ride it read.  \<open>accept_ride_finish\<close> is the rest, run on the state of the store at
  the time of the write.\<close>

definition accept_ride_begin :: "world \<Rightarrow> identity \<Rightarrow> ride_id \<Rightarrow> (room \<times> event) list + ride" where
  "accept_ride_begin w u rid =
     (if accountType u \<noteq> DriverAccount then Inl []
      else case ride_findUnique w rid of
        None \<Rightarrow> Inl [(Caller, RideAcceptFailed ''Ride no longer available'')]
      | Some r \<Rightarrow>
          if status r \<noteq> REQUESTED
          then Inl [(Caller, RideAcceptFailed ''Ride no longer available'')]
          else Inr r)"

definition accept_ride_finish ::
  "world \<Rightarrow> identity \<Rightarrow> ride_id \<Rightarrow> ride \<Rightarrow> time \<Rightarrow> (room \<times> event) list \<times> world" where
  "accept_ride_finish w u rid r now =
     (let d = drivers w (accountId u) in
      (case ride_update w rid
             (\<lambda>x. x\<lparr>driverId := Some (accountId u), status := ACCEPTED,
                      acceptedAt := Some now\<rparr>) of
         Inl e \<Rightarrow> ([(Caller, RideAcceptFailed ''Failed to accept ride'')], w)
       | Inr (r', w') \<Rightarrow>
           (case d of
              None \<Rightarrow> ([(Caller, RideAcceptFailed ''Failed to accept ride'')], w')
            | Some dr \<Rightarrow>
                ([(UserRoom (userId r), RideAccepted rid (accountId u)),
                  (Caller, RideAcceptConfirmed rid (driverEarnings r))], w'))))"

text \<open>The handler when nothing else runs between its read and its write.\<close>

definition accept_ride :: "world \<Rightarrow> identity \<Rightarrow> ride_id \<Rightarrow> time \<Rightarrow> (room \<times> event) list \<times> world" where
  "accept_ride w u rid now =
     (case accept_ride_begin w u rid of
        Inl out \<Rightarrow> (out, w)
      | Inr r \<Rightarrow> accept_ride_finish w u rid r now)"

text \<open>Two accept events for the same ride whose handlers overlap: both handlers have read
  the ride before either writes.\<close>

definition accept_overlapping ::
  "world \<Rightarrow> ride_id \<Rightarrow> identity \<Rightarrow> time \<Rightarrow> identity \<Rightarrow> time \<Rightarrow>
   ((room \<times> event) list \<times> (room \<times> event) list \<times> world) option" where
  "accept_overlapping w rid u1 t1 u2 t2 =
     (case (accept_ride_begin w u1 rid, accept_ride_begin w u2 rid) of
        (Inr r1, Inr r2) \<Rightarrow>
          (let (out1, w1) = accept_ride_finish w u1 rid r1 t1;
               (out2, w2) = accept_ride_finish w1 u2 rid r2 t2
           in Some (out1, out2, w2))
      | _ \<Rightarrow> None)"

text \<open>\<open>driver:arrived\<close> and \<open>driver:start_trip\<close>: the row is updated whatever its
  current status; there is no \<open>try\<close> around the update, so a missing row makes the
  handler throw.\<close>

definition driver_arrived ::
  "world \<Rightarrow> identity \<Rightarrow> ride_id \<Rightarrow> time \<Rightarrow> outcome \<times> (room \<times> event) list \<times> world" where
  "driver_arrived w u rid now =
     (if accountType u \<noteq> DriverAccount then (Returned, [], w)
      else case ride_update w rid (\<lambda>x. x\<lparr>status := ARRIVED, arrivedAt := Some now\<rparr>) of
        Inl e \<Rightarrow> (Threw e, [], w)
      | Inr (r, w') \<Rightarrow> (Returned, [(UserRoom (userId r), RideDriverArrived rid)], w'))"

definition start_trip ::
  "world \<Rightarrow> identity \<Rightarrow> ride_id \<Rightarrow> time \<Rightarrow> outcome \<times> (room \<times> event) list \<times> world" where
  "start_trip w u rid now =
     (if accountType u \<noteq> DriverAccount then (Returned, [], w)
      else case ride_update w rid (\<lambda>x. x\<lparr>status := IN_PROGRESS, startedAt := Some now\<rparr>) of
        Inl e \<Rightarrow> (Threw e, [], w)
      | Inr (r, w') \<Rightarrow> (Returned, [(UserRoom (userId r), RideTripStarted rid)], w'))"

text \<open>\<open>driver:complete_trip\<close>: update of the ride (whatever its status), insertion of the
  earning, increment of the driver's counters, removal of the live state, and the two
  messages.  \<open>ride.driver\<close> is the row of the ride's assigned driver, read for the first
  message; each step that throws ends the handler with the effects of the steps before it.\<close>

definition complete_trip ::
  "bool \<Rightarrow> world \<Rightarrow> identity \<Rightarrow> ride_id \<Rightarrow> time \<Rightarrow> outcome \<times> (room \<times> event) list \<times> world" where
  "complete_trip rideIdUnique w u rid now =
     (if accountType u \<noteq> DriverAccount then (Returned, [], w)
      else case ride_update w rid (\<lambda>x. x\<lparr>status := COMPLETED, completedAt := Some now\<rparr>) of
        Inl e \<Rightarrow> (Threw e, [], w)
      | Inr (r, w1) \<Rightarrow>
          (case earning_create rideIdUnique w1
                  \<lparr>earningDriverId = accountId u, earningRideId = rid,
                   grossAmount = totalFare r, earningPlatformFee = platformFee r,
                   netAmount = driverEarnings r, earningTip = tip r,
                   earningStatus = PENDING\<rparr> of
             Inl e \<Rightarrow> (Threw e, [], w1)
           | Inr w2 \<Rightarrow>
               (case driver_update w2 (accountId u)
                       (\<lambda>d. d\<lparr>totalRides := totalRides d + 1,
                                totalEarnings :=
                                  store_increment (totalEarnings d) (driverEarnings r)\<rparr>) of
                  Inl e \<Rightarrow> (Threw e, [], w2)
                | Inr w3 \<Rightarrow>
                    (let w4 = clearRideState w3 rid in
                     (case (case driverId r of None \<Rightarrow> None | Some d \<Rightarrow> drivers w d) of
                        None \<Rightarrow> (Threw TypeError, [], w4)
                      | Some rd \<Rightarrow>
                          (Returned,
                           [(UserRoom (userId r), RideCompleted rid (totalFare r)),
                            (Caller, RideCompleteConfirmed rid (driverEarnings r))], w4))))))"

text \<open>\<open>driver:online\<close>, \<open>driver:offline\<close>, \<open>driver:location\<close>.\<close>

definition driver_online ::
  "(real \<Rightarrow> real \<Rightarrow> bool) \<Rightarrow> world \<Rightarrow> identity \<Rightarrow> real \<Rightarrow> real \<Rightarrow> time \<Rightarrow> outcome \<times> world" where
  "driver_online geoValid w u lat lng now =
     (if accountType u \<noteq> DriverAccount then (Returned, w)
      else case driver_update w (accountId u)
                  (\<lambda>d. d\<lparr>isOnline := True, currentLat := Some lat, currentLng := Some lng,
                           lastLocationUpdate := Some now\<rparr>) of
        Inl e \<Rightarrow> (Threw e, w)
      | Inr w' \<Rightarrow> updateDriverLocation geoValid w' (accountId u) lat lng now)"



section \<open>Pricing (utils/pricing.js)\<close>








section \<open>Authentication middleware (middleware/auth.js)\<close>

datatype body =
    ErrorBody string
  | ErrorThrown error  \<comment> \<open>the message of an exception that reached the error handler\<close>
  | ValidationErrors
  | RideCreated ride_id ride
  | RideDetails ride "driver_location option"
  | CancelResult real
  | TipAdded real
  | Success

type_synonym response = "nat \<times> body"

text \<open>\<open>authenticateToken\<close> for a token whose signature has been verified and whose payload
  is \<open>u\<close>: \<open>None\<close> stands for \<open>next()\<close>, \<open>Some r\<close> for the response that ends the request.
  The account is looked up for the types \<open>user\<close> and \<open>driver\<close> only.\<close>

definition authenticateToken :: "world \<Rightarrow> identity \<Rightarrow> response option" where
  "authenticateToken w u =
     (if accountType u = UserAccount then
        (case users w (accountId u) of
           None \<Rightarrow> Some (401, ErrorBody ''Account not found or inactive'')
         | Some st \<Rightarrow> if st \<noteq> ACTIVE then Some (401, ErrorBody ''Account not found or inactive'')
                      else None)
      else if accountType u = DriverAccount then
        (case drivers w (accountId u) of
           None \<Rightarrow> Some (401, ErrorBody ''Driver account not found or suspended'')
         | Some d \<Rightarrow> if driverStatus d = SUSPENDED
                      then Some (401, ErrorBody ''Driver account not found or suspended'')
                      else None)
      else None)"

fun type_name :: "account_type \<Rightarrow> string" where
  "type_name UserAccount = ''user''"
| "type_name DriverAccount = ''driver''"
| "type_name AdminAccount = ''admin''"

definition requireUserType :: "account_type \<Rightarrow> identity \<Rightarrow> response option" where
  "requireUserType t u =
     (if accountType u \<noteq> t
      then Some (403, ErrorBody (''Access denied. '' @ type_name t @ '' account required.''))
      else None)"

text \<open>The global error handler turns an exception of a route into a response.\<close>

fun errorHandler :: "error \<Rightarrow> response" where
  "errorHandler P2002 = (409, ErrorBody ''A record with this value already exists'')"
| "errorHandler P2025 = (404, ErrorBody ''Record not found'')"
| "errorHandler e = (500, ErrorThrown e)"

section \<open>Ride routes (routes/rides.js)\<close>


text \<open>The body of \<open>POST /request\<close>.  A field checked with \<open>isFloat\<close> is \<open>None\<close> when it
  is not a number, the service type is \<open>None\<close> when it is not one of the four names.\<close>

record request_body =
  reqPickupAddress :: string
  reqPickupLat :: "real option"
  reqPickupLng :: "real option"
  reqDropoffAddress :: string
  reqDropoffLat :: "real option"
  reqDropoffLng :: "real option"
  reqServiceType :: "service_type option"
  reqScheduledFor :: "time option"
  reqPromoCode :: "string option"







text \<open>\<open>GET /api/rides/:id\<close>.  The two access checks are by account type: a \<open>user\<close>
  must be the ride's rider, a \<open>driver\<close> must be the ride's driver.\<close>

definition get_ride :: "world \<Rightarrow> identity \<Rightarrow> ride_id \<Rightarrow> time \<Rightarrow> response" where
  "get_ride w u rid now =
     (case authenticateToken w u of Some resp \<Rightarrow> resp | None \<Rightarrow>
     (case ride_findUnique w rid of
        None \<Rightarrow> (404, ErrorBody ''Ride not found'')
      | Some r \<Rightarrow>
          (if accountType u = UserAccount \<and> userId r \<noteq> accountId u
           then (403, ErrorBody ''Access denied'')
           else if accountType u = DriverAccount \<and> driverId r \<noteq> Some (accountId u)
           then (403, ErrorBody ''Access denied'')
           else
             (let driverLocation =
                    (case driverId r of
                       None \<Rightarrow> None
                     | Some d \<Rightarrow>
                         (if status r \<in> set [ACCEPTED, ARRIVING, ARRIVED, IN_PROGRESS]
                          then getDriverLocation w d now else None))
              in (200, RideDetails r driverLocation)))))"

text \<open>\<open>POST /api/rides/:id/cancel\<close>.\<close>

definition cancel_ride ::
  "world \<Rightarrow> identity \<Rightarrow> ride_id \<Rightarrow> string option \<Rightarrow> time \<Rightarrow>
   response \<times> (room \<times> event) list \<times> world" where
  "cancel_ride w u rid reason now =
     (case authenticateToken w u of Some resp \<Rightarrow> (resp, [], w) | None \<Rightarrow>
     (case ride_findUnique w rid of
        None \<Rightarrow> ((404, ErrorBody ''Ride not found''), [], w)
      | Some r \<Rightarrow>
          (if accountType u = UserAccount \<and> userId r \<noteq> accountId u
           then ((403, ErrorBody ''Access denied''), [], w)
           else if accountType u = DriverAccount \<and> driverId r \<noteq> Some (accountId u)
           then ((403, ErrorBody ''Access denied''), [], w)
           else if status r \<in> set [COMPLETED, CANCELLED]
           then ((400, ErrorBody ''Ride cannot be cancelled''), [], w)
           else
             (let cancellationFee =
                    (if driverId r \<noteq> None \<and> accountType u = UserAccount then 5 else 0)
              in (case ride_update w rid
                         (\<lambda>x. x\<lparr>status := CANCELLED, cancelledAt := Some now,
                                  cancelReason := reason,
                                  cancelledBy := Some (if accountType u = UserAccount
                                                       then RIDER else DRIVER)\<rparr>) of
                    Inl e \<Rightarrow> (errorHandler e, [], w)
                  | Inr (r', w1) \<Rightarrow>
                      ((200, CancelResult cancellationFee),
                       [(RideRoom rid, RideCancelled rid (accountType u) reason cancellationFee)],
                       clearRideState w1 rid))))))"


text \<open>\<open>getAvailableDriversForService\<close>: the nearby drivers whose row is approved, online
  and lists the service type.\<close>

definition getAvailableDriversForService ::
  "world \<Rightarrow> (ident \<times> real) list \<Rightarrow> service_type \<Rightarrow> (ident \<times> real) list" where
  "getAvailableDriversForService w nearbyDrivers st =
     (if nearbyDrivers = [] then []
      else filter
             (\<lambda>(did, dist). case drivers w did of
                               None \<Rightarrow> False
                             | Some d \<Rightarrow> driverStatus d = APPROVED \<and> isOnline d
                                         \<and> st \<in> set (serviceTypes d))
             nearbyDrivers)"

text \<open>\<open>startDriverMatching\<close>.  The result is the messages sent, the expiry timer that
  was set (ride id and the rider id captured by the callback), and the new state.\<close>

definition startDriverMatching ::
  "((real \<times> real) \<Rightarrow> (real \<times> real) \<Rightarrow> real) \<Rightarrow> world \<Rightarrow> ride_id \<Rightarrow>
   (room \<times> event) list \<times> (ride_id \<times> ident) option \<times> world" where
  "startDriverMatching geoDist w rid =
     (case ride_findUnique w rid of
        None \<Rightarrow> ([], None, w)
      | Some r \<Rightarrow>
          (let nearbyDrivers = findNearbyDrivers geoDist w (pickupLat r) (pickupLng r) 10 20;
               availableDrivers = getAvailableDriversForService w nearbyDrivers (serviceType r)
           in if availableDrivers = []
              then (case ride_update w rid (\<lambda>x. x\<lparr>status := NO_DRIVERS\<rparr>) of
                      Inl e \<Rightarrow> ([], None, w)
                    | Inr (r', w1) \<Rightarrow> ([(UserRoom (userId r), RideNoDrivers rid)], None, w1))
              else (map (\<lambda>(did, dist). (DriverRoom did, RideRequest rid (driverEarnings r) dist))
                      (take 5 availableDrivers),
                    Some (rid, userId r), w)))"

text \<open>The callback of the 30 second timer set by \<open>startDriverMatching\<close>.  It awaits
  \<open>findUnique\<close>, tests the status it has read, and then awaits an update whose
  \<open>where\<close> names the id only.  The first part is the read and the test, the second part
  the update and the message to the rider.\<close>

definition matching_timeout_begin :: "world \<Rightarrow> ride_id \<Rightarrow> bool" where
  "matching_timeout_begin w rid =
     (case ride_findUnique w rid of
        None \<Rightarrow> False
      | Some currentRide \<Rightarrow> status currentRide = REQUESTED)"

definition matching_timeout_finish ::
  "world \<Rightarrow> ride_id \<Rightarrow> ident \<Rightarrow> (room \<times> event) list \<times> world" where
  "matching_timeout_finish w rid riderId =
     (case ride_update w rid (\<lambda>x. x\<lparr>status := NO_DRIVERS\<rparr>) of
        Inl e \<Rightarrow> ([], w)
      | Inr (r', w1) \<Rightarrow> ([(UserRoom riderId, RideNoDrivers rid)], w1))"


section \<open>Payment webhooks (routes/webhooks.js)\<close>



section \<open>Driver routes (routes/drivers.js)\<close>

text \<open>\<open>POST /api/drivers/location\<close>.  The validators \<open>isFloat\<close> are declared but their
  result is never consulted; the body's numbers reach the store and Redis as they are.\<close>

definition post_location ::
  "(real \<Rightarrow> real \<Rightarrow> bool) \<Rightarrow> world \<Rightarrow> identity \<Rightarrow> real \<Rightarrow> real \<Rightarrow> time \<Rightarrow> response \<times> world" where
  "post_location geoValid w u lat lng now =
     (case authenticateToken w u of Some resp \<Rightarrow> (resp, w) | None \<Rightarrow>
     (case requireUserType DriverAccount u of Some resp \<Rightarrow> (resp, w) | None \<Rightarrow>
     (case driver_update w (accountId u)
             (\<lambda>d. d\<lparr>currentLat := Some lat, currentLng := Some lng,
                      lastLocationUpdate := Some now\<rparr>) of
        Inl e \<Rightarrow> (errorHandler e, w)
      | Inr w1 \<Rightarrow>
          (case updateDriverLocation geoValid w1 (accountId u) lat lng now of
             (Threw e, w2) \<Rightarrow> (errorHandler e, w2)
           | (Returned, w2) \<Rightarrow> ((200, Success), w2)))))"

section \<open>The operations as steps of one system\<close>


text \<open>The parameters of the environment: what the Redis server accepts and measures,
  whether the earning table's ride id is unique, how the runtime rounds a result to a
  double, and its \<open>toUpperCase\<close>.\<close>

record environment =
  geoValid :: "real \<Rightarrow> real \<Rightarrow> bool"
  geoDist :: "(real \<times> real) \<Rightarrow> (real \<times> real) \<Rightarrow> real"
  earningRideIdUnique :: bool
  rounding :: "real \<Rightarrow> real"
  toUpperCase :: "string \<Rightarrow> string"



section \<open>Predicates used to state the properties\<close>

text \<open>The requesting identity is the ride's rider or its assigned driver.\<close>

definition is_rider_or_assigned_driver :: "identity \<Rightarrow> ride \<Rightarrow> bool" where
  "is_rider_or_assigned_driver u r =
     ((accountType u = UserAccount \<and> userId r = accountId u)
      \<or> (accountType u = DriverAccount \<and> driverId r = Some (accountId u)))"





section \<open>Sample data\<close>





text \<open>A small state used to run the operations on concrete inputs: one requested ride
  of rider-1, two approved drivers that are offline and serve only the basic class, and
  the two promo codes of the seed script together with a percentage code above 100.\<close>

definition sample_ride :: ride where
  "sample_ride =
     \<lparr>userId = ''rider-1'', driverId = None, status = REQUESTED,
      pickupAddress = ''1 Main St'', pickupLat = 407128 / 10000, pickupLng = - (74006 / 1000),
      dropoffAddress = ''9 Side St'', dropoffLat = 4075 / 100, dropoffLng = - (7399 / 100),
      distanceMiles = Num 3, durationMinutes = Num 13, serviceType = VELOX_BLACK,
      baseFare = Num 8, distanceFare = Num (105 / 10), timeFare = Num (65 / 10),
      surgeMult = Num 1, promoDiscount = Num 0, totalFare = Num 28,
      platformFee = Num (56 / 10), driverEarnings = Num (224 / 10),
      tip = 0, isScheduled = False,
      acceptedAt = None, arrivedAt = None, startedAt = None, completedAt = None,
      cancelledAt = None, cancelReason = None, cancelledBy = None,
      paymentStatus = PAYMENT_PENDING\<rparr>"

definition sample_driver :: driver where
  "sample_driver =
     \<lparr>driverStatus = APPROVED, isOnline = False, serviceTypes = [VELOX],
      currentLat = None, currentLng = None, lastLocationUpdate = None,
      totalRides = 0, totalEarnings = Num 0\<rparr>"

definition sample_promos :: "string \<rightharpoonup> promo" where
  "sample_promos =
     [''FIRST10'' \<mapsto> \<lparr>promoId = 1, isActive = True, validUntil = None, usageLimit = Some 1000,
                      usageCount = 0, perUserLimit = Some 1, minRideFare = None,
                      promoType = FIXED, promoValue = 10, maxDiscount = None\<rparr>,
      ''VELOX25'' \<mapsto> \<lparr>promoId = 2, isActive = True, validUntil = None, usageLimit = Some 500,
                      usageCount = 0, perUserLimit = Some 1, minRideFare = None,
                      promoType = PERCENTAGE, promoValue = 25, maxDiscount = Some 15\<rparr>,
      ''MEGA150'' \<mapsto> \<lparr>promoId = 3, isActive = True, validUntil = None, usageLimit = None,
                      usageCount = 0, perUserLimit = Some 1, minRideFare = None,
                      promoType = PERCENTAGE, promoValue = 150, maxDiscount = None\<rparr>]"

definition sample_world :: world where
  "sample_world =
     \<lparr>rides = [sample_ride],
      drivers = [''driver-a'' \<mapsto> sample_driver, ''driver-b'' \<mapsto> sample_driver],
      users = [''rider-1'' \<mapsto> ACTIVE, ''rider-2'' \<mapsto> ACTIVE],
      earnings = [],
      promoCodes = sample_promos,
      promoUsages = [],
      driverLocationKeys = Map.empty,
      driversOnline = [],
      rideStateKeys = Map.empty\<rparr>"

definition driver_a :: identity where
  "driver_a = \<lparr>accountId = ''driver-a'', accountType = DriverAccount\<rparr>"

definition driver_b :: identity where
  "driver_b = \<lparr>accountId = ''driver-b'', accountType = DriverAccount\<rparr>"

definition rider_1 :: identity where
  "rider_1 = \<lparr>accountId = ''rider-1'', accountType = UserAccount\<rparr>"

definition rider_2 :: identity where
  "rider_2 = \<lparr>accountId = ''rider-2'', accountType = UserAccount\<rparr>"

definition admin_1 :: identity where
  "admin_1 = \<lparr>accountId = ''admin-1'', accountType = AdminAccount\<rparr>"

text \<open>The sample ride in another status, assigned to driver-a.\<close>

definition assigned_world :: "ride_status \<Rightarrow> world" where
  "assigned_world st =
     sample_world\<lparr>rides := [sample_ride\<lparr>driverId := Some ''driver-a'', status := st\<rparr>]\<rparr>"

text \<open>The same state with driver-b serving the premium class as well.\<close>

definition fleet_world :: world where
  "fleet_world =
     sample_world\<lparr>drivers := [''driver-a'' \<mapsto> sample_driver,
                                ''driver-b'' \<mapsto> sample_driver\<lparr>serviceTypes := [VELOX, VELOX_BLACK]\<rparr>]\<rparr>"

text \<open>For the sample runs the Redis server is given the coordinate limits documented for
  GEOADD and, as its distance between two (longitude, latitude) positions, the haversine
  distance in miles.\<close>

definition redis_geoValid :: "real \<Rightarrow> real \<Rightarrow> bool" where
  "redis_geoValid lng lat =
     (- 180 \<le> lng \<and> lng \<le> 180 \<and> - (8505112878 / 100000000) \<le> lat
      \<and> lat \<le> 8505112878 / 100000000)"

definition haversine_dist :: "(real \<times> real) \<Rightarrow> (real \<times> real) \<Rightarrow> real" where
  "haversine_dist p q =
     (let rad = (\<lambda>deg. deg * (pi / 180));
          a = (sin (rad (snd q - snd p) / 2))\<^sup>2
              + cos (rad (snd p)) * cos (rad (snd q)) * (sin (rad (fst q - fst p) / 2))\<^sup>2
      in 3959 * (2 * atan2 (sqrt a) (sqrt (1 - a))))"

text \<open>driver-b goes online at the pickup point of the sample ride at time 1000 and sends
  nothing afterwards.\<close>

definition online_world :: world where
  "online_world =
     snd (driver_online redis_geoValid fleet_world driver_b (407128 / 10000) (- (74006 / 1000)) 1000)"

text \<open>Two \<open>driver:complete_trip\<close> events for the same ride, one after the other.\<close>

definition complete_twice ::
  "bool \<Rightarrow> world \<Rightarrow> identity \<Rightarrow> ride_id \<Rightarrow> time \<Rightarrow> time \<Rightarrow>
   (outcome \<times> (room \<times> event) list) \<times> (outcome \<times> (room \<times> event) list) \<times> world" where
  "complete_twice rideIdUnique w u rid t1 t2 =
     (let (o1, e1, w1) = complete_trip rideIdUnique w u rid t1;
          (o2, e2, w2) = complete_trip rideIdUnique w1 u rid t2
      in ((o1, e1), (o2, e2), w2))"

definition sample_earning :: earning where
  "sample_earning =
     \<lparr>earningDriverId = ''driver-a'', earningRideId = 0, grossAmount = Num 28,
      earningPlatformFee = Num (56 / 10), netAmount = Num (224 / 10), earningTip = 0,
      earningStatus = PENDING\<rparr>"

text \<open>A request for a basic ride whose pickup and dropoff are the same point, and the
  same request with the percentage code above 100.\<close>

definition colocated_body :: request_body where
  "colocated_body =
     \<lparr>reqPickupAddress = ''1 Main St'', reqPickupLat = Some (407128 / 10000),
      reqPickupLng = Some (- (74006 / 1000)), reqDropoffAddress = ''1 Main St'',
      reqDropoffLat = Some (407128 / 10000), reqDropoffLng = Some (- (74006 / 1000)),
      reqServiceType = Some VELOX, reqScheduledFor = None, reqPromoCode = None\<rparr>"




lemmas sample_defs =
  sample_world_def sample_ride_def sample_driver_def sample_promos_def sample_earning_def
  assigned_world_def fleet_world_def driver_a_def driver_b_def rider_1_def rider_2_def admin_1_def
  colocated_body_def

lemmas store_defs =
  ride_findUnique_def ride_update_def driver_update_def earning_create_def
  earning_updateMany_tip_def clearRideState_def setRideState_def

lemmas accept_defs = accept_ride_def accept_ride_begin_def accept_ride_finish_def

section \<open>Properties of the accept handler\<close>

text \<open>
  Claim C2, evaluated.  driver-a and driver-b both send \<open>driver:accept_ride\<close> for the
  requested sample ride, driver-a first.  Each handler reads the ride and then awaits, so
  both have read the status REQUESTED before either writes.  The handlers then write in
  arrival order.  Both writes succeed, because the update names the ride id only: the
  rider is told twice that the ride was accepted, both drivers get the confirmation, none
  gets \<open>Ride no longer available\<close>, and the stored driver is driver-b, not the driver
  whose accept came first.
\<close>

theorem overlapping_accepts_both_succeed:
  "accept_ride_begin sample_world driver_a 0 = Inr sample_ride
   \<and> accept_ride_begin sample_world driver_b 0 = Inr sample_ride
   \<and> accept_overlapping sample_world 0 driver_a 1000 driver_b 1001 =
       Some ([(UserRoom ''rider-1'', RideAccepted 0 ''driver-a''),
              (Caller, RideAcceptConfirmed 0 (Num (224 / 10)))],
             [(UserRoom ''rider-1'', RideAccepted 0 ''driver-b''),
              (Caller, RideAcceptConfirmed 0 (Num (224 / 10)))],
             sample_world\<lparr>rides := [sample_ride\<lparr>driverId := Some ''driver-b'',
                                       status := ACCEPTED, acceptedAt := Some 1001\<rparr>]\<rparr>)"
  by (simp add: accept_overlapping_def accept_ride_begin_def accept_ride_finish_def
      sample_defs store_defs)

text \<open>
  Claim C9.  For an authenticated driver (a socket of type driver whose row exists) the
  accept handler succeeds exactly when the ride exists with status REQUESTED; nothing
  else is read: not whether the driver was offered the ride, not the driver's online flag,
  not the service classes the driver serves.
\<close>

theorem accept_checks_only_ride:
  assumes "accountType u = DriverAccount" and "drivers w (accountId u) = Some d"
  shows "accept_ride w u rid now =
     (if rid < length (rides w) \<and> status (rides w ! rid) = REQUESTED
      then ([(UserRoom (userId (rides w ! rid)), RideAccepted rid (accountId u)),
             (Caller, RideAcceptConfirmed rid (driverEarnings (rides w ! rid)))],
            w\<lparr>rides := (rides w)[rid := (rides w ! rid)\<lparr>driverId := Some (accountId u),
                                         status := ACCEPTED, acceptedAt := Some now\<rparr>]\<rparr>)
      else ([(Caller, RideAcceptFailed ''Ride no longer available'')], w))"
  using assms by (simp add: accept_defs ride_findUnique_def ride_update_def)

text \<open>In the sample run the ride is offered to driver-b only; driver-a is offline, is not
  in the geo index and does not serve the ride's class, and accepts the ride.\<close>

theorem accept_checks_only_ride_witness:
  "fst (startDriverMatching haversine_dist online_world 0) =
       [(DriverRoom ''driver-b'', RideRequest 0 (Num (224 / 10)) 0)]
   \<and> map_of (driversOnline online_world) ''driver-a'' = None
   \<and> map_option isOnline (drivers online_world ''driver-a'') = Some False
   \<and> map_option serviceTypes (drivers online_world ''driver-a'') = Some [VELOX]
   \<and> serviceType (rides online_world ! 0) = VELOX_BLACK
   \<and> fst (accept_ride online_world driver_a 0 2000) =
       [(UserRoom ''rider-1'', RideAccepted 0 ''driver-a''),
        (Caller, RideAcceptConfirmed 0 (Num (224 / 10)))]
   \<and> map (\<lambda>r. (status r, driverId r)) (rides (snd (accept_ride online_world driver_a 0 2000))) =
       [(ACCEPTED, Some ''driver-a'')]"
  using accept_checks_only_ride [of driver_a online_world sample_driver 0 2000]
  by (simp add: online_world_def sample_defs store_defs driver_online_def
      updateDriverLocation_def redis_geoValid_def startDriverMatching_def
      findNearbyDrivers_def georadius_def haversine_dist_def atan2_def
      getAvailableDriversForService_def)

section \<open>Properties of the matching timer\<close>

text \<open>
  Claim C5, evaluated.  The expiry timer of the requested sample ride fires.  Its callback
  reads the ride, finds the status REQUESTED and awaits.  driver-a's accept is handled in
  between and makes the ride ACCEPTED.  The callback then writes NO_DRIVERS with an update
  that names the ride id only: it acts although the ride is no longer REQUESTED, the
  accepted ride (still carrying driver-a and the acceptance time) becomes NO_DRIVERS, and
  the rider is told that there are no drivers.
\<close>

theorem timeout_overwrites_accept:
  "matching_timeout_begin sample_world 0
   \<and> accept_ride sample_world driver_a 0 30001 =
       ([(UserRoom ''rider-1'', RideAccepted 0 ''driver-a''),
         (Caller, RideAcceptConfirmed 0 (Num (224 / 10)))],
        sample_world\<lparr>rides := [sample_ride\<lparr>driverId := Some ''driver-a'', status := ACCEPTED,
                                            acceptedAt := Some 30001\<rparr>]\<rparr>)
   \<and> matching_timeout_finish (snd (accept_ride sample_world driver_a 0 30001)) 0 ''rider-1'' =
       ([(UserRoom ''rider-1'', RideNoDrivers 0)],
        sample_world\<lparr>rides := [sample_ride\<lparr>driverId := Some ''driver-a'', status := NO_DRIVERS,
                                            acceptedAt := Some 30001\<rparr>]\<rparr>)"
  by (simp add: matching_timeout_begin_def matching_timeout_finish_def accept_defs
      sample_defs store_defs)

section \<open>The trip handlers on rides that are over\<close>

text \<open>
  Claim C3, evaluated.  The sample ride, assigned to driver-a, has been cancelled.  The
  driver's \<open>driver:arrived\<close> event is not rejected: the handler returns normally, tells the
  rider that the driver has arrived, and the stored status becomes ARRIVED.  Likewise
  \<open>driver:start_trip\<close> on the completed ride makes it IN_PROGRESS again, and a rider's
  cancellation of a ride that ended with NO_DRIVERS is answered 200 and stored.
\<close>

theorem terminal_ride_is_updated:
  "driver_arrived (assigned_world CANCELLED) driver_a 0 5000 =
     (Returned, [(UserRoom ''rider-1'', RideDriverArrived 0)],
      sample_world\<lparr>rides := [sample_ride\<lparr>driverId := Some ''driver-a'', status := ARRIVED,
                                          arrivedAt := Some 5000\<rparr>]\<rparr>)
   \<and> start_trip (assigned_world COMPLETED) driver_a 0 5000 =
     (Returned, [(UserRoom ''rider-1'', RideTripStarted 0)],
      sample_world\<lparr>rides := [sample_ride\<lparr>driverId := Some ''driver-a'', status := IN_PROGRESS,
                                          startedAt := Some 5000\<rparr>]\<rparr>)
   \<and> cancel_ride (sample_world\<lparr>rides := [sample_ride\<lparr>status := NO_DRIVERS\<rparr>]\<rparr>)
        rider_1 0 None 5000 =
     ((200, CancelResult 0), [(RideRoom 0, RideCancelled 0 UserAccount None 0)],
      sample_world\<lparr>rides := [sample_ride\<lparr>status := CANCELLED, cancelledAt := Some 5000,
                                          cancelledBy := Some RIDER\<rparr>]\<rparr>)"
  by (simp add: driver_arrived_def start_trip_def cancel_ride_def authenticateToken_def
      sample_defs store_defs)

text \<open>
  Claim C1, evaluated.  The sample ride is in progress with driver-a, who sends
  \<open>driver:complete_trip\<close> at time 9000 and again at time 9500.  Without a unique ride id
  in the earning table both events are confirmed, two earnings are stored for the ride and
  the driver's counters are incremented twice.  With a unique ride id the second event
  still rewrites the ride (its completion time becomes 9500) before the insertion throws,
  and no message is sent to the driver.
\<close>

theorem complete_twice_is_not_rejected:
  "complete_twice False (assigned_world IN_PROGRESS) driver_a 0 9000 9500 =
     ((Returned, [(UserRoom ''rider-1'', RideCompleted 0 (Num 28)),
                  (Caller, RideCompleteConfirmed 0 (Num (224 / 10)))]),
      (Returned, [(UserRoom ''rider-1'', RideCompleted 0 (Num 28)),
                  (Caller, RideCompleteConfirmed 0 (Num (224 / 10)))]),
      sample_world
        \<lparr>rides := [sample_ride\<lparr>driverId := Some ''driver-a'', status := COMPLETED,
                                completedAt := Some 9500\<rparr>],
         drivers := [''driver-a'' \<mapsto> sample_driver\<lparr>totalRides := 2,
                                        totalEarnings := Num (448 / 10)\<rparr>,
                     ''driver-b'' \<mapsto> sample_driver],
         earnings := [sample_earning, sample_earning]\<rparr>)
   \<and> complete_twice True (assigned_world IN_PROGRESS) driver_a 0 9000 9500 =
     ((Returned, [(UserRoom ''rider-1'', RideCompleted 0 (Num 28)),
                  (Caller, RideCompleteConfirmed 0 (Num (224 / 10)))]),
      (Threw P2002, []),
      sample_world
        \<lparr>rides := [sample_ride\<lparr>driverId := Some ''driver-a'', status := COMPLETED,
                                completedAt := Some 9500\<rparr>],
         drivers := [''driver-a'' \<mapsto> sample_driver\<lparr>totalRides := 1,
                                        totalEarnings := Num (224 / 10)\<rparr>,
                     ''driver-b'' \<mapsto> sample_driver],
         earnings := [sample_earning]\<rparr>)"
  by (simp add: complete_twice_def complete_trip_def store_increment_def sample_defs store_defs
      fun_upd_twist)

section \<open>Access to a ride\<close>

text \<open>
  Claim C10, as stated, fails: the access checks of \<open>GET /:id\<close> and \<open>POST /:id/cancel\<close>
  are made for the account types user and driver only.  The token of the admin login
  passes \<open>authenticateToken\<close>, and its holder, who is neither the rider nor the driver of
  the sample ride, reads the ride and cancels it.
\<close>

theorem admin_token_reads_and_cancels:
  "authenticateToken sample_world admin_1 = None
   \<and> \<not> is_rider_or_assigned_driver admin_1 sample_ride
   \<and> get_ride sample_world admin_1 0 1000 = (200, RideDetails sample_ride None)
   \<and> cancel_ride sample_world admin_1 0 None 1000 =
       ((200, CancelResult 0), [(RideRoom 0, RideCancelled 0 AdminAccount None 0)],
        sample_world\<lparr>rides := [sample_ride\<lparr>status := CANCELLED, cancelledAt := Some 1000,
                                          cancelledBy := Some DRIVER\<rparr>]\<rparr>)"
  by (simp add: get_ride_def cancel_ride_def authenticateToken_def
      is_rider_or_assigned_driver_def sample_defs store_defs)

text \<open>
  Claim C10, amended.  For an authenticated identity of type user or driver and an
  existing ride: fetching the ride succeeds exactly when the identity is the ride's rider
  or its assigned driver; cancelling succeeds only then (and is refused with 400 when the
  ride is completed or cancelled); every other identity of these two types is answered
  403 \<open>Access denied\<close>, nothing is sent and the state is unchanged.
\<close>

theorem ride_access_by_role:
  assumes "accountType u = UserAccount \<or> accountType u = DriverAccount"
    and "authenticateToken w u = None" and "rid < length (rides w)"
  shows "fst (get_ride w u rid now) =
           (if is_rider_or_assigned_driver u (rides w ! rid) then 200 else 403)
       \<and> fst (fst (cancel_ride w u rid reason now)) =
           (if \<not> is_rider_or_assigned_driver u (rides w ! rid) then 403
            else if status (rides w ! rid) = COMPLETED \<or> status (rides w ! rid) = CANCELLED
            then 400 else 200)
       \<and> (\<not> is_rider_or_assigned_driver u (rides w ! rid) \<longrightarrow>
            get_ride w u rid now = (403, ErrorBody ''Access denied'')
            \<and> cancel_ride w u rid reason now = ((403, ErrorBody ''Access denied''), [], w))"
  using assms
  by (auto simp: get_ride_def cancel_ride_def is_rider_or_assigned_driver_def
      ride_findUnique_def ride_update_def Let_def)

theorem ride_access_by_role_witness:
  "get_ride sample_world rider_2 0 1000 = (403, ErrorBody ''Access denied'')
   \<and> cancel_ride sample_world rider_2 0 None 1000 =
       ((403, ErrorBody ''Access denied''), [], sample_world)
   \<and> get_ride sample_world driver_b 0 1000 = (403, ErrorBody ''Access denied'')
   \<and> fst (get_ride sample_world rider_1 0 1000) = 200
   \<and> fst (fst (cancel_ride sample_world rider_1 0 None 1000)) = 200"
  using ride_access_by_role [of rider_2 sample_world 0 1000 None]
    ride_access_by_role [of driver_b sample_world 0 1000 None]
    ride_access_by_role [of rider_1 sample_world 0 1000 None]
  by (simp add: authenticateToken_def is_rider_or_assigned_driver_def sample_defs)

section \<open>One active ride per rider\<close>







section \<open>The driver position\<close>

text \<open>
  Claim C8, as stated, fails.  driver-b posts the latitude 91.  The route writes it to the
  driver's row and \<open>updateDriverLocation\<close> writes it to the location key before the pair is
  given to the geo index; the refusal of the index ends the request with status 500, and
  the out-of-range position stays stored in both places.  The latitude 89, which is inside
  [-90, 90], is refused by the index as well.
\<close>

theorem out_of_range_position_is_stored:
  "post_location redis_geoValid fleet_world driver_b 91 0 7000 =
     ((500, ErrorThrown RedisError),
      fleet_world
        \<lparr>drivers := [''driver-a'' \<mapsto> sample_driver,
                     ''driver-b'' \<mapsto> sample_driver\<lparr>serviceTypes := [VELOX, VELOX_BLACK],
                        currentLat := Some 91, currentLng := Some 0,
                        lastLocationUpdate := Some 7000\<rparr>],
         driverLocationKeys :=
           [''driver-b'' \<mapsto> (\<lparr>locLat = 91, locLng = 0, updatedAt = 7000\<rparr>, 307000)]\<rparr>)
   \<and> getDriverLocation (snd (post_location redis_geoValid fleet_world driver_b 91 0 7000))
        ''driver-b'' 7001 = Some \<lparr>locLat = 91, locLng = 0, updatedAt = 7000\<rparr>
   \<and> fst (post_location redis_geoValid fleet_world driver_b 89 0 7000) =
       (500, ErrorThrown RedisError)"
  by (simp add: post_location_def authenticateToken_def requireUserType_def
      updateDriverLocation_def redis_geoValid_def getDriverLocation_def sample_defs store_defs)

text \<open>
  Claim C8, amended.  The upsert has no range check of its own.  For every coordinate
  pair it overwrites the driver's location record with the coordinates, the time of the
  update and an expiry five minutes (300000 ms) after the update, so that the record is
  read at every time before the expiry and at no time from the expiry on; then it gives
  the pair to the geo index.  It fails exactly when the index refuses the pair, and
  otherwise the driver's position in the index is overwritten and no other position
  changes.  The route \<open>POST /location\<close> of an authenticated driver first writes the pair to
  the driver's row, answers 200 exactly when the index accepts, and leaves the location
  record with the same content and expiry.
\<close>

theorem upsert_has_no_range_check:
  "getDriverLocation (snd (updateDriverLocation gv w d lat lng now)) d now =
     Some \<lparr>locLat = lat, locLng = lng, updatedAt = now\<rparr>
   \<and> driverLocationKeys (snd (updateDriverLocation gv w d lat lng now)) d =
       Some (\<lparr>locLat = lat, locLng = lng, updatedAt = now\<rparr>, now + 300000)
   \<and> getDriverLocation (snd (updateDriverLocation gv w d lat lng now)) d t =
       (if t < now + 300000 then Some \<lparr>locLat = lat, locLng = lng, updatedAt = now\<rparr> else None)
   \<and> fst (updateDriverLocation gv w d lat lng now) =
       (if gv lng lat then Returned else Threw RedisError)
   \<and> map_of (driversOnline (snd (updateDriverLocation gv w d lat lng now))) =
       (if gv lng lat then (map_of (driversOnline w))(d \<mapsto> (lng, lat))
        else map_of (driversOnline w))
   \<and> (authenticateToken w u = None \<and> accountType u = DriverAccount \<longrightarrow>
        fst (fst (post_location gv w u lat lng now)) = (if gv lng lat then 200 else 500)
        \<and> map_option (\<lambda>x. (currentLat x, currentLng x))
             (drivers (snd (post_location gv w u lat lng now)) (accountId u))
            = Some (Some lat, Some lng)
        \<and> getDriverLocation (snd (post_location gv w u lat lng now)) (accountId u) now =
            Some \<lparr>locLat = lat, locLng = lng, updatedAt = now\<rparr>
        \<and> driverLocationKeys (snd (post_location gv w u lat lng now)) (accountId u) =
            Some (\<lparr>locLat = lat, locLng = lng, updatedAt = now\<rparr>, now + 300000))"
  by (auto simp: updateDriverLocation_def getDriverLocation_def update_conv' post_location_def
      authenticateToken_def requireUserType_def driver_update_def Let_def
      split: option.splits if_splits)

theorem upsert_has_no_range_check_witness:
  "authenticateToken fleet_world driver_b = None
   \<and> redis_geoValid (- (74006 / 1000)) (407128 / 10000)
   \<and> fst (post_location redis_geoValid fleet_world driver_b (407128 / 10000) (- (74006 / 1000)) 7000)
       = (200, Success)
   \<and> map_of (driversOnline (snd (updateDriverLocation redis_geoValid fleet_world ''driver-b''
        (407128 / 10000) (- (74006 / 1000)) 7000))) ''driver-b'' =
       Some (- (74006 / 1000), 407128 / 10000)
   \<and> \<not> redis_geoValid 200 0
   \<and> fst (updateDriverLocation redis_geoValid fleet_world ''driver-b'' 0 200 7000) =
       Threw RedisError
   \<and> getDriverLocation (snd (updateDriverLocation redis_geoValid fleet_world ''driver-b'' 0 200 7000))
        ''driver-b'' 7000 = Some \<lparr>locLat = 0, locLng = 200, updatedAt = 7000\<rparr>
   \<and> driverLocationKeys
        (snd (updateDriverLocation redis_geoValid fleet_world ''driver-b'' 0 200 7000)) ''driver-b''
       = Some (\<lparr>locLat = 0, locLng = 200, updatedAt = 7000\<rparr>, 307000)
   \<and> getDriverLocation (snd (updateDriverLocation redis_geoValid fleet_world ''driver-b'' 0 200 7000))
        ''driver-b'' 306999 = Some \<lparr>locLat = 0, locLng = 200, updatedAt = 7000\<rparr>
   \<and> getDriverLocation (snd (updateDriverLocation redis_geoValid fleet_world ''driver-b'' 0 200 7000))
        ''driver-b'' 307000 = None"
  using upsert_has_no_range_check [of redis_geoValid fleet_world "''driver-b''"
      "407128 / 10000" "- (74006 / 1000)" 7000 306999 driver_b]
    upsert_has_no_range_check [of redis_geoValid fleet_world "''driver-b''" 0 200 7000 306999 driver_b]
    upsert_has_no_range_check [of redis_geoValid fleet_world "''driver-b''" 0 200 7000 307000 driver_b]
  by (simp add: authenticateToken_def redis_geoValid_def sample_defs post_location_def
      requireUserType_def updateDriverLocation_def getDriverLocation_def store_defs)

text \<open>
  Claim C4, evaluated.  driver-b went online at time 1000 and has sent nothing since.  At
  time 400000, more than five minutes later, the location record has expired, and yet the
  proximity query returns the driver and the matching of the sample ride offers the ride to
  that driver: the geo set is not tied to the expiry of the location key.
\<close>

theorem stale_driver_is_returned:
  "getDriverLocation online_world ''driver-b'' 1000 =
      Some \<lparr>locLat = 407128 / 10000, locLng = - (74006 / 1000), updatedAt = 1000\<rparr>
   \<and> getDriverLocation online_world ''driver-b'' 400000 = None
   \<and> findNearbyDrivers haversine_dist online_world (407128 / 10000) (- (74006 / 1000)) 10 20 =
       [(''driver-b'', 0)]
   \<and> startDriverMatching haversine_dist online_world 0 =
       ([(DriverRoom ''driver-b'', RideRequest 0 (Num (224 / 10)) 0)], Some (0, ''rider-1''),
        online_world)"
  by (simp add: online_world_def sample_defs store_defs driver_online_def
      updateDriverLocation_def redis_geoValid_def startDriverMatching_def getDriverLocation_def
      findNearbyDrivers_def georadius_def haversine_dist_def atan2_def
      getAvailableDriversForService_def)

section \<open>Fares\<close>































section \<open>Fares are fixed at creation\<close>




end
